theory Spec2Isabelle
  imports Main
begin

section \<open>Role data and thrown errors\<close>

text \<open>
  \<^verbatim>\<open>RoleData\<close> of \<^verbatim>\<open>base.ts\<close>: every field is optional. A field that is absent and a
  field that holds \<^verbatim>\<open>undefined\<close> are both \<open>None\<close>; the timestamps are integers
  (epoch milliseconds). The field \<^verbatim>\<open>id\<close> is written \<open>id'\<close>, since \<open>id\<close> is the
  identity function of HOL.
\<close>

record RoleData =
  id' :: "string option"
  name :: "string option"
  description :: "string option"
  prompt :: "string option"
  createTime :: "int option"
  deleteTime :: "int option"

text \<open>
  A thrown JavaScript error object: its \<^verbatim>\<open>name\<close>, its \<^verbatim>\<open>message\<close> and, for the
  errors of \<^verbatim>\<open>node:fs\<close>, its \<^verbatim>\<open>code\<close>. A function that can throw returns
  \<open>error + 'a\<close>, with \<open>Inl\<close> the error thrown.
\<close>

datatype error = Error (ename: string) (message: string) (code: "string option")

text \<open>\<^verbatim>\<open>`${error}`\<close>, which is \<^verbatim>\<open>Error.prototype.toString\<close>.\<close>

definition String :: "error \<Rightarrow> string" where
  "String e =
     (if ename e = [] then message e
      else if message e = [] then ename e
      else ename e @ '': '' @ message e)"

section \<open>The file system interface and its two implementations\<close>

text \<open>
  \<^verbatim>\<open>interface Fs\<close>: an implementation works on a state of its own (type \<open>'s\<close>) and
  returns the state it leaves, together with the text read or the error thrown.
\<close>

record 's Fs =
  read :: "string \<Rightarrow> 's \<Rightarrow> (error + string) \<times> 's"
  "write" :: "string \<Rightarrow> string \<Rightarrow> 's \<Rightarrow> (error + unit) \<times> 's"

subsection \<open>MemFs\<close>

text \<open>The private \<^verbatim>\<open>Map<string, string>\<close> of \<^verbatim>\<open>MemFs\<close> is its state.\<close>

type_synonym files = "string \<rightharpoonup> string"

definition MemFs_read :: "string \<Rightarrow> files \<Rightarrow> (error + string) \<times> files" where
  "MemFs_read path fls = (Inr (case fls path of Some content \<Rightarrow> content | None \<Rightarrow> ''{}''), fls)"

definition MemFs_write :: "string \<Rightarrow> string \<Rightarrow> files \<Rightarrow> (error + unit) \<times> files" where
  "MemFs_write path content fls = (Inr (), fls(path \<mapsto> content))"

definition MemFs :: "files Fs" where
  "MemFs = \<lparr>read = MemFs_read, write = MemFs_write\<rparr>"

subsection \<open>The calls of Node that RealFs makes\<close>

text \<open>
  The disk is the map from the paths of its regular files to their contents.
  Directories are not tracked: whether one exists shows only in the errors the calls
  report. Which call fails, and with which error, is for the environment to say, so it
  is a parameter: \<open>fault env c\<close> is the error call \<open>c\<close> fails with, \<open>None\<close> when the
  operating system lets it through. The environment also fixes \<^verbatim>\<open>os.tmpdir()\<close>, the
  file name that the \<^verbatim>\<open>tmp\<close> package draws, and how much of its data a failing
  \<^verbatim>\<open>writeFile\<close> has already written (\<open>None\<close>: the file was not even opened).
\<close>

datatype syscall =
  ReadFile string
  | Mkdir string
  | TmpFile
  | WriteFile string
  | Rename string string
  | Unlink string

record node_env =
  fault :: "syscall \<Rightarrow> error option"
  os_tmpdir :: string
  tmp_basename :: string
  torn :: "nat option"

definition ENOENT :: "string \<Rightarrow> error" where
  "ENOENT path = Error ''Error'' (''ENOENT: no such file or directory, '' @ path) (Some ''ENOENT'')"

definition readFile :: "node_env \<Rightarrow> string \<Rightarrow> files \<Rightarrow> error + string" where
  "readFile env path disk =
     (case fault env (ReadFile path) of
        Some e \<Rightarrow> Inl e
      | None \<Rightarrow> (case disk path of None \<Rightarrow> Inl (ENOENT path) | Some content \<Rightarrow> Inr content))"

text \<open>\<^verbatim>\<open>mkdir(dir, { recursive: true })\<close>: no error when the directory is there already.\<close>

definition mkdir :: "node_env \<Rightarrow> string \<Rightarrow> files \<Rightarrow> error + unit" where
  "mkdir env dir disk = (case fault env (Mkdir dir) of Some e \<Rightarrow> Inl e | None \<Rightarrow> Inr ())"

text \<open>
  \<^verbatim>\<open>tmp.fileSync()\<close> without options: a new, empty file in \<^verbatim>\<open>os.tmpdir()\<close>; the
  result is its path (\<^verbatim>\<open>tempFile.name\<close>). The package gives up when the names it draws
  are taken.
\<close>

definition tmp_name :: "node_env \<Rightarrow> string" where
  "tmp_name env = os_tmpdir env @ ''/'' @ tmp_basename env"

definition tmp_fileSync :: "node_env \<Rightarrow> files \<Rightarrow> (error + string) \<times> files" where
  "tmp_fileSync env disk =
     (case fault env TmpFile of
        Some e \<Rightarrow> (Inl e, disk)
      | None \<Rightarrow>
          (if disk (tmp_name env) \<noteq> None
           then (Inl (Error ''Error'' ''Could not get a unique tmp filename, max tries reached'' None), disk)
           else (Inr (tmp_name env), disk(tmp_name env \<mapsto> []))))"

definition writeFile :: "node_env \<Rightarrow> string \<Rightarrow> string \<Rightarrow> files \<Rightarrow> (error + unit) \<times> files" where
  "writeFile env path content disk =
     (case fault env (WriteFile path) of
        Some e \<Rightarrow> (Inl e, (case torn env of None \<Rightarrow> disk | Some n \<Rightarrow> disk(path \<mapsto> take n content)))
      | None \<Rightarrow> (Inr (), disk(path \<mapsto> content)))"

text \<open>A \<^verbatim>\<open>rename\<close> that fails leaves both paths as they were.\<close>

definition rename :: "node_env \<Rightarrow> string \<Rightarrow> string \<Rightarrow> files \<Rightarrow> (error + unit) \<times> files" where
  "rename env old new disk =
     (case fault env (Rename old new) of
        Some e \<Rightarrow> (Inl e, disk)
      | None \<Rightarrow>
          (case disk old of
             None \<Rightarrow> (Inl (ENOENT old), disk)
           | Some content \<Rightarrow> (Inr (), if old = new then disk else (disk(new \<mapsto> content))(old := None))))"

text \<open>
  \<^verbatim>\<open>tempFile.removeCallback()\<close> unlinks the temporary file and ignores the error
  \<^verbatim>\<open>ENOENT\<close> of a file that is gone already.
\<close>

definition removeCallback :: "node_env \<Rightarrow> string \<Rightarrow> files \<Rightarrow> (error + unit) \<times> files" where
  "removeCallback env path disk =
     (case fault env (Unlink path) of
        Some e \<Rightarrow> (if code e = Some ''ENOENT'' then (Inr (), disk) else (Inl e, disk))
      | None \<Rightarrow> (Inr (), disk(path := None)))"

text \<open>\<^verbatim>\<open>dirname\<close> of \<^verbatim>\<open>node:path\<close>, on POSIX paths.\<close>

definition dirname :: "string \<Rightarrow> string" where
  "dirname path =
     (if path = [] then ''.''
      else
        let hasRoot = (hd path = CHR ''/'');
            rest = dropWhile (\<lambda>c. c \<noteq> CHR ''/'') (dropWhile (\<lambda>c. c = CHR ''/'') (rev (tl path)));
            endpos = length rest
        in if rest = [] then (if hasRoot then ''/'' else ''.'')
           else if hasRoot \<and> endpos = 1 then ''//''
           else take endpos path)"

subsection \<open>RealFs\<close>

definition RealFs_read :: "node_env \<Rightarrow> string \<Rightarrow> files \<Rightarrow> (error + string) \<times> files" where
  "RealFs_read env path disk =
     (case readFile env path disk of
        Inr content \<Rightarrow> (Inr content, disk)
      | Inl e \<Rightarrow> (if code e = Some ''ENOENT'' then (Inr ''{}'', disk) else (Inl e, disk)))"

text \<open>
  The \<^verbatim>\<open>try\<close> block is \<open>body\<close>; the \<^verbatim>\<open>finally\<close> block runs after it on both exits, and
  an error it throws replaces the outcome of the body.
\<close>

definition RealFs_write :: "node_env \<Rightarrow> string \<Rightarrow> string \<Rightarrow> files \<Rightarrow> (error + unit) \<times> files" where
  "RealFs_write env path content disk =
     (let dir = dirname path in
      (case mkdir env dir disk of
        Inl e \<Rightarrow> (Inl e, disk)
      | Inr _ \<Rightarrow>
          (case tmp_fileSync env disk of
             (Inl e, disk1) \<Rightarrow> (Inl e, disk1)
           | (Inr tempFile, disk1) \<Rightarrow>
               let body =
                     (case writeFile env tempFile content disk1 of
                        (Inl e, disk2) \<Rightarrow> (Inl e, disk2)
                      | (Inr _, disk2) \<Rightarrow> rename env tempFile path disk2)
               in (case removeCallback env tempFile (snd body) of
                     (Inl e, disk3) \<Rightarrow> (Inl e, disk3)
                   | (Inr _, disk3) \<Rightarrow> (fst body, disk3)))))"

definition RealFs :: "node_env \<Rightarrow> files Fs" where
  "RealFs env = \<lparr>read = RealFs_read env, write = RealFs_write env\<rparr>"

section \<open>FileDB\<close>

subsection \<open>Objects keyed by role id\<close>

text \<open>
  A \<^verbatim>\<open>Record<string, RoleData>\<close> is a plain object. It is modelled by the list of its
  own properties in the order in which \<^verbatim>\<open>Object.values\<close> and \<^verbatim>\<open>JSON.stringify\<close>
  enumerate them: array indices first, in ascending order, then the other keys in
  the order of their creation. Its prototype is \<^verbatim>\<open>Object.prototype\<close>, whose members a
  property read finds when the object has no own property of that name.
\<close>

type_synonym roles_object = "(string \<times> RoleData) list"

definition Object_prototype_keys :: "string list" where
  "Object_prototype_keys =
     [''constructor'', ''__defineGetter__'', ''__defineSetter__'', ''hasOwnProperty'',
      ''__lookupGetter__'', ''__lookupSetter__'', ''isPrototypeOf'', ''propertyIsEnumerable'',
      ''toString'', ''valueOf'', ''__proto__'', ''toLocaleString'']"

text \<open>What a property read \<^verbatim>\<open>db.roles[k]\<close> evaluates to.\<close>

datatype js_value =
  Undefined
  | Null
  | Inherited string
  | Role RoleData

definition js_get :: "roles_object \<Rightarrow> string \<Rightarrow> js_value" where
  "js_get obj k =
     (case map_of obj k of
        Some r \<Rightarrow> Role r
      | None \<Rightarrow> if k \<in> set Object_prototype_keys then Inherited k else Undefined)"

text \<open>\<^verbatim>\<open>!v\<close> and \<^verbatim>\<open>v ?? null\<close>: objects and functions are truthy.\<close>

definition falsy :: "js_value \<Rightarrow> bool" where
  "falsy v = (v = Undefined \<or> v = Null)"

definition or_null :: "js_value \<Rightarrow> js_value" where
  "or_null v = (if v = Undefined \<or> v = Null then Null else v)"

text \<open>
  An array index is the canonical decimal numeral of an integer below \<open>2\<^sup>3\<^sup>2 - 1\<close>.
\<close>

definition decimal :: "string \<Rightarrow> int" where
  "decimal k = fold (\<lambda>c n. 10 * n + (of_char c - 48)) k 0"

definition array_index :: "string \<Rightarrow> int option" where
  "array_index k =
     (if k \<noteq> [] \<and> (\<forall>c \<in> set k. 48 \<le> (of_char c :: int) \<and> (of_char c :: int) \<le> 57)
         \<and> (k = ''0'' \<or> hd k \<noteq> CHR ''0'') \<and> decimal k < 4294967295
      then Some (decimal k) else None)"

definition before_index :: "int \<Rightarrow> string \<times> RoleData \<Rightarrow> bool" where
  "before_index i p = (case array_index (fst p) of Some j \<Rightarrow> j < i | None \<Rightarrow> False)"

definition create_property :: "roles_object \<Rightarrow> string \<Rightarrow> RoleData \<Rightarrow> roles_object" where
  "create_property obj k v =
     (case array_index k of
        None \<Rightarrow> obj @ [(k, v)]
      | Some i \<Rightarrow> takeWhile (before_index i) obj @ (k, v) # dropWhile (before_index i) obj)"

text \<open>
  The assignment \<^verbatim>\<open>obj[k] = v\<close>. An own property keeps its place and takes the new
  value. Without one, the key \<^verbatim>\<open>__proto__\<close> reaches the setter that
  \<^verbatim>\<open>Object.prototype\<close> has under this name: it makes \<^verbatim>\<open>v\<close> the prototype of the object
  and creates no property. Every other key becomes a new own property.
\<close>

definition js_set :: "roles_object \<Rightarrow> string \<Rightarrow> RoleData \<Rightarrow> roles_object" where
  "js_set obj k v =
     (if map_of obj k \<noteq> None then map (\<lambda>(k', v'). if k' = k then (k', v) else (k', v')) obj
      else if k = ''__proto__'' then obj
      else create_property obj k v)"

text \<open>\<^verbatim>\<open>delete obj[k]\<close> and \<^verbatim>\<open>Object.values(obj)\<close>.\<close>

definition js_delete :: "roles_object \<Rightarrow> string \<Rightarrow> roles_object" where
  "js_delete obj k = filter (\<lambda>(k', v'). k' \<noteq> k) obj"

definition Object_values :: "roles_object \<Rightarrow> RoleData list" where
  "Object_values obj = map snd obj"

text \<open>A property key that is \<^verbatim>\<open>undefined\<close> is the string \<^verbatim>\<open>"undefined"\<close>.\<close>

definition ToPropertyKey :: "string option \<Rightarrow> string" where
  "ToPropertyKey k = (case k of Some s \<Rightarrow> s | None \<Rightarrow> ''undefined'')"

subsection \<open>The schema and its JSON text\<close>

text \<open>
  \<^verbatim>\<open>interface DatabaseSchema\<close>. The cast \<^verbatim>\<open>JSON.parse(content) as DatabaseSchema\<close>
  checks nothing; the model keeps to the values of the declared type.
\<close>

record DatabaseSchema =
  roles :: "roles_object option"

text \<open>
  \<^verbatim>\<open>JSON.parse\<close> and \<^verbatim>\<open>JSON.stringify(db, null, 2)\<close> belong to the language, not to
  this program, which takes them as they are: they are parameters here. \<open>parse\<close>
  returns \<open>Inl\<close> of the \<^verbatim>\<open>SyntaxError\<close> it throws. What a statement needs of the two
  functions is among its hypotheses.
\<close>

record JSON =
  parse :: "string \<Rightarrow> error + DatabaseSchema"
  stringify :: "DatabaseSchema \<Rightarrow> string"

definition round_trip :: "JSON \<Rightarrow> DatabaseSchema \<Rightarrow> bool" where
  "round_trip J db = (parse J (stringify J db) = Inr db)"

subsection \<open>The class\<close>

text \<open>
  The two fields of the constructor. The world a method runs in is the state of the
  file system it was given and the lines written to the console so far.
\<close>

record 's FileDB =
  dbPath :: string
  fs :: "'s Fs"

datatype console_line = console_error string | console_warn string

record 's world =
  storage :: 's
  console :: "console_line list"

definition writeDb :: "JSON \<Rightarrow> 's FileDB \<Rightarrow> DatabaseSchema \<Rightarrow> 's world \<Rightarrow> (error + unit) \<times> 's world" where
  "writeDb J this db w =
     (let content = stringify J db in
      (case write (fs this) (dbPath this) content (storage w) of
         (r, s) \<Rightarrow> (r, w\<lparr>storage := s\<rparr>)))"

definition readDb :: "JSON \<Rightarrow> 's FileDB \<Rightarrow> 's world \<Rightarrow> (error + DatabaseSchema) \<times> 's world" where
  "readDb J this w =
     (case read (fs this) (dbPath this) (storage w) of
        (Inl e, s) \<Rightarrow> (Inl e, w\<lparr>storage := s\<rparr>)
      | (Inr content, s) \<Rightarrow>
          (case parse J content of
             Inr db \<Rightarrow> (Inr db, w\<lparr>storage := s\<rparr>)
           | Inl err \<Rightarrow>
               (let w1 = w\<lparr>storage := s,
                          console := console w @
                            [console_error (''Failed to parse database file '' @ dbPath this @ '': '' @ String err)]\<rparr>;
                    emptyDb = \<lparr>roles = Some []\<rparr>;
                    w2 = w1\<lparr>console := console w1 @
                            [console_warn (''Resetting database file '' @ dbPath this @
                               '' to an empty state due to parse failure.'')]\<rparr>
                in (case writeDb J this emptyDb w2 of
                      (Inl e, w3) \<Rightarrow> (Inl e, w3)
                    | (Inr _, w3) \<Rightarrow> (Inr emptyDb, w3)))))"

definition listRoles :: "JSON \<Rightarrow> 's FileDB \<Rightarrow> 's world \<Rightarrow> (error + RoleData list) \<times> 's world" where
  "listRoles J this w =
     (case readDb J this w of
        (Inl e, w1) \<Rightarrow> (Inl e, w1)
      | (Inr db, w1) \<Rightarrow>
          (Inr (Object_values (case roles db of Some obj \<Rightarrow> obj | None \<Rightarrow> [])), w1))"

definition getRole :: "JSON \<Rightarrow> 's FileDB \<Rightarrow> string \<Rightarrow> 's world \<Rightarrow> (error + js_value) \<times> 's world" where
  "getRole J this roleId w =
     (case readDb J this w of
        (Inl e, w1) \<Rightarrow> (Inl e, w1)
      | (Inr db, w1) \<Rightarrow>
          (Inr (or_null (case roles db of Some obj \<Rightarrow> js_get obj roleId | None \<Rightarrow> Undefined)), w1))"

text \<open>The method returns nothing: its promise resolves to \<^verbatim>\<open>undefined\<close>, here \<open>()\<close>.\<close>

definition upsertRole :: "JSON \<Rightarrow> 's FileDB \<Rightarrow> RoleData \<Rightarrow> 's world \<Rightarrow> (error + unit) \<times> 's world" where
  "upsertRole J this roleData w =
     (case readDb J this w of
        (Inl e, w1) \<Rightarrow> (Inl e, w1)
      | (Inr db, w1) \<Rightarrow>
          (let obj = (case roles db of Some obj \<Rightarrow> obj | None \<Rightarrow> []);
               db' = db\<lparr>roles := Some (js_set obj (ToPropertyKey (id' roleData)) roleData)\<rparr>
           in writeDb J this db' w1))"

definition deleteRole :: "JSON \<Rightarrow> 's FileDB \<Rightarrow> string \<Rightarrow> 's world \<Rightarrow> (error + bool) \<times> 's world" where
  "deleteRole J this roleId w =
     (case readDb J this w of
        (Inl e, w1) \<Rightarrow> (Inl e, w1)
      | (Inr db, w1) \<Rightarrow>
          (case roles db of
             None \<Rightarrow> (Inr False, w1)
           | Some obj \<Rightarrow>
               (if falsy (js_get obj roleId) then (Inr False, w1)
                else
                  (let db' = db\<lparr>roles := Some (js_delete obj roleId)\<rparr>
                   in (case writeDb J this db' w1 of
                         (Inl e, w2) \<Rightarrow> (Inl e, w2)
                       | (Inr _, w2) \<Rightarrow> (Inr True, w2))))))"

section \<open>What the statements speak about\<close>

text \<open>
  The invariant of the schema: every entry of \<^verbatim>\<open>roles\<close> is filed under the id it
  carries. A schema without \<^verbatim>\<open>roles\<close> has no entry.
\<close>

definition schema_inv :: "DatabaseSchema \<Rightarrow> bool" where
  "schema_inv db =
     (case roles db of
        None \<Rightarrow> True
      | Some obj \<Rightarrow> list_all (\<lambda>(k, v). id' v = Some k) obj)"

text \<open>
  The contract of the file system at one call: asked in state \<open>s\<close> to write
  \<open>content\<close> under \<open>path\<close>, it does so, and the next read of \<open>path\<close> returns
  \<open>content\<close>.
\<close>

definition keeps :: "'s Fs \<Rightarrow> string \<Rightarrow> string \<Rightarrow> 's \<Rightarrow> bool" where
  "keeps f path content s =
     (case write f path content s of
        (Inl e, s') \<Rightarrow> False
      | (Inr u, s') \<Rightarrow> fst (read f path s') = Inr content)"

subsection \<open>Sample data\<close>

text \<open>
  Concrete roles, JSON texts and environments, on which the statements below are
  instantiated. \<open>JSON_table\<close> is \<^verbatim>\<open>JSON\<close> cut down to a finite table of texts and the
  values they stand for; any other text is a syntax error.
\<close>

definition JSON_table :: "(string \<times> DatabaseSchema) list \<Rightarrow> JSON" where
  "JSON_table tbl =
     \<lparr>parse = (\<lambda>text. case map_of tbl text of
                        Some db \<Rightarrow> Inr db
                      | None \<Rightarrow> Inl (Error ''SyntaxError'' ''Unexpected token in JSON'' None)),
      stringify = (\<lambda>db. case find (\<lambda>p. snd p = db) tbl of
                            Some p \<Rightarrow> fst p
                          | None \<Rightarrow> [])\<rparr>"

definition lines :: "string list \<Rightarrow> string" where
  "lines ls = foldr (\<lambda>l acc. if acc = [] then l else l @ CHR 0x0A # acc) ls []"

definition role_x :: RoleData where
  "role_x = \<lparr>id' = Some ''x'', name = Some ''Ada'', description = None, prompt = None,
              createTime = Some 1700000000000, deleteTime = None\<rparr>"

definition role_b :: RoleData where
  "role_b = \<lparr>id' = Some ''b'', name = None, description = None, prompt = None,
              createTime = None, deleteTime = None\<rparr>"

definition role_c :: RoleData where
  "role_c = \<lparr>id' = Some ''c'', name = None, description = None, prompt = None,
              createTime = None, deleteTime = None\<rparr>"

definition role_proto :: RoleData where
  "role_proto = \<lparr>id' = Some ''__proto__'', name = None, description = None, prompt = None,
                  createTime = None, deleteTime = None\<rparr>"

definition role_anon :: RoleData where
  "role_anon = \<lparr>id' = None, name = Some ''Bob'', description = None, prompt = None,
                 createTime = None, deleteTime = None\<rparr>"

definition text_no_roles :: string where
  "text_no_roles = ''{}''"

definition text_empty_roles :: string where
  \<open>text_empty_roles = lines [''{'', ''  "roles": {}'', ''}'']\<close>

definition text_x :: string where
  \<open>text_x = lines
     [''{'',
      ''  "roles": {'',
      ''    "x": {'',
      ''      "id": "x",'',
      ''      "name": "Ada",'',
      ''      "createTime": 1700000000000'',
      ''    }'',
      ''  }'',
      ''}'']\<close>

definition text_b :: string where
  \<open>text_b = lines
     [''{'',
      ''  "roles": {'',
      ''    "b": {'',
      ''      "id": "b"'',
      ''    }'',
      ''  }'',
      ''}'']\<close>

definition text_bc :: string where
  \<open>text_bc = lines
     [''{'',
      ''  "roles": {'',
      ''    "b": {'',
      ''      "id": "b"'',
      ''    },'',
      ''    "c": {'',
      ''      "id": "c"'',
      ''    }'',
      ''  }'',
      ''}'']\<close>

definition text_anon :: string where
  \<open>text_anon = lines
     [''{'',
      ''  "roles": {'',
      ''    "undefined": {'',
      ''      "name": "Bob"'',
      ''    }'',
      ''  }'',
      ''}'']\<close>

definition sample_JSON :: JSON where
  "sample_JSON = JSON_table
     [(text_no_roles, \<lparr>roles = None\<rparr>),
      (text_empty_roles, \<lparr>roles = Some []\<rparr>),
      (text_x, \<lparr>roles = Some [(''x'', role_x)]\<rparr>),
      (text_b, \<lparr>roles = Some [(''b'', role_b)]\<rparr>),
      (text_bc, \<lparr>roles = Some [(''b'', role_b), (''c'', role_c)]\<rparr>),
      (text_anon, \<lparr>roles = Some [(''undefined'', role_anon)]\<rparr>)]"

definition sample_db :: "files FileDB" where
  "sample_db = \<lparr>dbPath = ''.data/db.json'', fs = MemFs\<rparr>"

definition world0 :: "files \<Rightarrow> files world" where
  "world0 fls = \<lparr>storage = fls, console = []\<rparr>"

definition EXDEV :: error where
  "EXDEV = Error ''Error'' ''EXDEV: cross-device link not permitted'' (Some ''EXDEV'')"

definition ENOSPC :: error where
  "ENOSPC = Error ''Error'' ''ENOSPC: no space left on device'' (Some ''ENOSPC'')"

definition env_ok :: node_env where
  "env_ok = \<lparr>fault = (\<lambda>c. None), os_tmpdir = ''/tmp'', tmp_basename = ''tmp-4242-Xn3f.tmp'',
              torn = None\<rparr>"

definition env_exdev :: node_env where
  "env_exdev = env_ok\<lparr>fault := (\<lambda>c. case c of Rename old new \<Rightarrow> Some EXDEV | _ \<Rightarrow> None)\<rparr>"

definition env_full :: node_env where
  "env_full = env_ok\<lparr>fault := (\<lambda>c. if c = WriteFile ''/tmp/tmp-4242-Xn3f.tmp'' then Some ENOSPC else None),
                    torn := Some 3\<rparr>"

section \<open>Lemmas\<close>

subsection \<open>The two file systems\<close>

lemma read_MemFs: "read MemFs path fls = (Inr (case fls path of Some content \<Rightarrow> content | None \<Rightarrow> ''{}''), fls)"
  by (simp add: MemFs_def MemFs_read_def)

lemma write_MemFs: "write MemFs path content fls = (Inr (), fls(path \<mapsto> content))"
  by (simp add: MemFs_def MemFs_write_def)

lemma keeps_MemFs: "keeps MemFs path content fls"
  by (simp add: keeps_def read_MemFs write_MemFs)

text \<open>
  Without faults, and with a fresh temporary name other than the target, \<^verbatim>\<open>RealFs\<close> does what
  \<^verbatim>\<open>MemFs\<close> does.
\<close>

lemma RealFs_write_ok:
  assumes "\<forall>c. fault env c = None"
    and "disk (tmp_name env) = None"
    and "tmp_name env \<noteq> path"
  shows "write (RealFs env) path content disk = (Inr (), disk(path \<mapsto> content))"
proof -
  have "((disk(tmp_name env \<mapsto> content))(path \<mapsto> content))(tmp_name env := None) = disk(path \<mapsto> content)"
    using assms(2,3) by (auto simp: fun_eq_iff)
  with assms show ?thesis
    by (simp add: RealFs_def RealFs_write_def mkdir_def tmp_fileSync_def writeFile_def rename_def
        removeCallback_def Let_def)
qed

lemma keeps_RealFs:
  assumes "\<forall>c. fault env c = None"
    and "disk (tmp_name env) = None"
    and "tmp_name env \<noteq> path"
  shows "keeps (RealFs env) path content disk"
proof -
  have "read (RealFs env) path (disk(path \<mapsto> content)) = (Inr content, disk(path \<mapsto> content))"
    using assms(1) by (simp add: RealFs_def RealFs_read_def readFile_def)
  with RealFs_write_ok [of env disk path content] assms show ?thesis
    by (simp add: keeps_def)
qed

subsection \<open>Property reads and writes\<close>

lemma map_of_takeWhile_None: "map_of obj k = None \<Longrightarrow> map_of (takeWhile P obj) k = None"
  by (induction obj) (auto split: if_splits)

lemma map_of_create_property:
  "map_of obj k = None \<Longrightarrow> map_of (create_property obj k v) k = Some v"
  by (simp add: create_property_def map_add_def map_of_takeWhile_None split: option.splits)

lemma map_of_replace:
  "map_of obj k \<noteq> None \<Longrightarrow>
   map_of (map (\<lambda>(k', v'). if k' = k then (k', v) else (k', v')) obj) k = Some v"
  by (induction obj) (auto split: if_splits)

lemma map_of_js_set:
  assumes "k \<noteq> ''__proto__'' \<or> map_of obj k \<noteq> None"
  shows "map_of (js_set obj k v) k = Some v"
proof (cases "map_of obj k")
  case None
  with assms show ?thesis by (simp add: js_set_def map_of_create_property)
next
  case (Some a)
  then have "map_of obj k \<noteq> None" by simp
  from map_of_replace [OF this] Some show ?thesis by (simp add: js_set_def)
qed

lemma js_get_js_set:
  "k \<noteq> ''__proto__'' \<or> map_of obj k \<noteq> None \<Longrightarrow> js_get (js_set obj k v) k = Role v"
  by (simp add: js_get_def map_of_js_set)

lemma map_of_js_set_other:
  "k' \<noteq> k \<Longrightarrow> map_of (js_set obj k v) k' = map_of obj k'"
proof -
  assume ne: "k' \<noteq> k"
  have rep: "map_of (map (\<lambda>(a, b). if a = k then (a, v) else (a, b)) obj) k' = map_of obj k'"
    using ne by (induction obj) auto
  have "map_of (takeWhile P obj @ (k, v) # dropWhile P obj) k' = map_of obj k'" for P
    using ne by (induction obj) auto
  then have cre: "map_of (create_property obj k v) k' = map_of obj k'"
    using ne by (simp add: create_property_def map_add_def split: option.splits)
  from rep cre show ?thesis
    by (simp add: js_set_def)
qed

lemma set_create_property: "set (create_property obj k v) = insert (k, v) (set obj)"
proof (cases "array_index k")
  case None
  then show ?thesis by (simp add: create_property_def)
next
  case (Some i)
  have "set (takeWhile (before_index i) obj) \<union> set (dropWhile (before_index i) obj) = set obj"
    by (metis set_append takeWhile_dropWhile_id)
  with Some show ?thesis by (auto simp: create_property_def)
qed

lemma set_js_set_subset: "set (js_set obj k v) \<subseteq> insert (k, v) (set obj)"
  by (auto simp: js_set_def set_create_property split: if_splits)

lemma set_js_set_new:
  "map_of obj k = None \<Longrightarrow> k \<noteq> ''__proto__'' \<Longrightarrow> set (js_set obj k v) = insert (k, v) (set obj)"
  by (simp add: js_set_def set_create_property)

lemma set_js_delete_subset: "set (js_delete obj k) \<subseteq> set obj"
  by (auto simp: js_delete_def)

lemma list_all_js_set:
  "list_all Q obj \<Longrightarrow> Q (k, v) \<Longrightarrow> list_all Q (js_set obj k v)"
  using set_js_set_subset [of obj k v] by (auto simp: list_all_iff)

lemma list_all_js_delete: "list_all Q obj \<Longrightarrow> list_all Q (js_delete obj k)"
  by (auto simp: list_all_iff js_delete_def)

text \<open>
  Three assignments under distinct keys, none of them \<^verbatim>\<open>__proto__\<close>, leave exactly the three
  values in the object.
\<close>

lemma Object_values_three_upserts:
  assumes "ka \<noteq> kb" "ka \<noteq> kc" "kb \<noteq> kc"
    and "ka \<noteq> ''__proto__''" "kb \<noteq> ''__proto__''" "kc \<noteq> ''__proto__''"
  shows "set (Object_values (js_set (js_set (js_set [] ka a) kb b) kc c)) = {a, b, c}"
proof -
  have 1: "set (js_set [] ka a) = {(ka, a)}"
    using assms(4) by (simp add: set_js_set_new)
  have "map_of (js_set [] ka a) kb = None"
    using assms(1) by (simp add: map_of_js_set_other)
  then have 2: "set (js_set (js_set [] ka a) kb b) = {(ka, a), (kb, b)}"
    using assms(5) 1 by (auto simp: set_js_set_new)
  have "map_of (js_set (js_set [] ka a) kb b) kc = None"
    using assms(2,3) by (simp add: map_of_js_set_other)
  then have "set (js_set (js_set (js_set [] ka a) kb b) kc c) = {(ka, a), (kb, b), (kc, c)}"
    using assms(6) 2 by (auto simp: set_js_set_new)
  then show ?thesis
    by (auto simp: Object_values_def)
qed

subsection \<open>The methods, once the schema is loaded\<close>

lemma readDb_parsed:
  "fst (read (fs this) (dbPath this) (storage w)) = Inr content \<Longrightarrow> parse J content = Inr db \<Longrightarrow>
   fst (readDb J this w) = Inr db"
  by (auto simp: readDb_def split: prod.splits sum.splits)

lemma readDb_reset:
  assumes "read (fs this) (dbPath this) (storage w) = (Inr content, s)"
    and "parse J content = Inl err"
  shows "\<exists>w2. readDb J this w =
           (case writeDb J this \<lparr>roles = Some []\<rparr> w2 of
              (Inl e, w3) \<Rightarrow> (Inl e, w3)
            | (Inr u, w3) \<Rightarrow> (Inr \<lparr>roles = Some []\<rparr>, w3))"
  using assms by (auto simp: readDb_def Let_def)

lemma writeDb_keeps:
  "keeps (fs this) (dbPath this) (stringify J db) (storage w) \<Longrightarrow>
   fst (writeDb J this db w) = Inr () \<and>
   fst (read (fs this) (dbPath this) (storage (snd (writeDb J this db w)))) = Inr (stringify J db)"
  by (auto simp: writeDb_def keeps_def split: prod.splits sum.splits)

lemma upsertRole_loaded:
  "readDb J this w = (Inr db, w1) \<Longrightarrow>
   upsertRole J this r w =
     writeDb J this
       (db\<lparr>roles := Some (js_set (case roles db of Some obj \<Rightarrow> obj | None \<Rightarrow> []) (ToPropertyKey (id' r)) r)\<rparr>) w1"
  by (simp add: upsertRole_def)

lemma deleteRole_loaded:
  "readDb J this w = (Inr db, w1) \<Longrightarrow>
   deleteRole J this roleId w =
     (case roles db of
        None \<Rightarrow> (Inr False, w1)
      | Some obj \<Rightarrow>
          if falsy (js_get obj roleId) then (Inr False, w1)
          else (case writeDb J this (db\<lparr>roles := Some (js_delete obj roleId)\<rparr>) w1 of
                  (Inl e, w2) \<Rightarrow> (Inl e, w2)
                | (Inr u, w2) \<Rightarrow> (Inr True, w2)))"
  by (simp add: deleteRole_def split: option.splits)

text \<open>
  An id that is neither a key of the object nor a member of \<^verbatim>\<open>Object.prototype\<close> is reported
  absent without a write; the entry of an id that is a key is removed.
\<close>

lemma deleteRole_absent:
  assumes "readDb J this w = (Inr db, w1)"
    and "roles db = None \<or> (\<exists>obj. roles db = Some obj \<and> map_of obj roleId = None
           \<and> roleId \<notin> set Object_prototype_keys)"
  shows "deleteRole J this roleId w = (Inr False, w1)"
  using assms(2) by (auto simp: deleteRole_loaded [OF assms(1)] js_get_def falsy_def)

lemma deleteRole_present:
  assumes "readDb J this w = (Inr db, w1)"
    and "roles db = Some obj" and "map_of obj roleId = Some r"
  shows "deleteRole J this roleId w =
           (case writeDb J this (db\<lparr>roles := Some (js_delete obj roleId)\<rparr>) w1 of
              (Inl e, w2) \<Rightarrow> (Inl e, w2)
            | (Inr u, w2) \<Rightarrow> (Inr True, w2))"
    and "map_of (js_delete obj roleId) roleId = None"
    and "k \<noteq> roleId \<Longrightarrow> map_of (js_delete obj roleId) k = map_of obj k"
proof -
  show "deleteRole J this roleId w =
           (case writeDb J this (db\<lparr>roles := Some (js_delete obj roleId)\<rparr>) w1 of
              (Inl e, w2) \<Rightarrow> (Inl e, w2)
            | (Inr u, w2) \<Rightarrow> (Inr True, w2))"
    using assms(2,3) by (simp add: deleteRole_loaded [OF assms(1)] js_get_def falsy_def)
  show "map_of (js_delete obj roleId) roleId = None"
    by (induction obj) (auto simp: js_delete_def)
  show "k \<noteq> roleId \<Longrightarrow> map_of (js_delete obj roleId) k = map_of obj k"
    by (induction obj) (auto simp: js_delete_def)
qed

text \<open>
  A role filed under any key but \<^verbatim>\<open>__proto__\<close> is what \<^verbatim>\<open>getRole\<close> returns for that key next.
\<close>

lemma upsert_then_get:
  assumes load: "readDb J this w = (Inr db, w1)"
    and key: "k = ToPropertyKey (id' r)" "k \<noteq> ''__proto__''"
    and db': "db' = db\<lparr>roles := Some (js_set (case roles db of Some obj \<Rightarrow> obj | None \<Rightarrow> []) k r)\<rparr>"
    and keeps: "keeps (fs this) (dbPath this) (stringify J db') (storage w1)"
    and rt: "round_trip J db'"
  shows "fst (upsertRole J this r w) = Inr () \<and>
         fst (getRole J this k (snd (upsertRole J this r w))) = Inr (Role r)"
proof -
  have up: "upsertRole J this r w = writeDb J this db' w1"
    using upsertRole_loaded [OF load] key db' by simp
  from writeDb_keeps [OF keeps]
  have ok: "fst (writeDb J this db' w1) = Inr ()"
    and reread: "fst (read (fs this) (dbPath this) (storage (snd (writeDb J this db' w1)))) = Inr (stringify J db')"
    by simp_all
  from rt have "parse J (stringify J db') = Inr db'"
    by (simp add: round_trip_def)
  from readDb_parsed [OF reread this]
  have "fst (readDb J this (snd (writeDb J this db' w1))) = Inr db'" .
  then have "fst (getRole J this k (snd (writeDb J this db' w1))) =
      Inr (or_null (js_get (js_set (case roles db of Some obj \<Rightarrow> obj | None \<Rightarrow> []) k r) k))"
    by (auto simp: getRole_def db' split: prod.splits sum.splits)
  with key(2) have "fst (getRole J this k (snd (writeDb J this db' w1))) = Inr (Role r)"
    by (simp add: js_get_js_set or_null_def)
  with up ok show ?thesis by simp
qed

lemma schema_inv_js_set:
  assumes "schema_inv db" and "id' r = Some k"
  shows "schema_inv (db\<lparr>roles := Some (js_set (case roles db of Some obj \<Rightarrow> obj | None \<Rightarrow> []) k r)\<rparr>)"
  using assms by (auto simp: schema_inv_def intro!: list_all_js_set split: option.splits)

lemma schema_inv_js_delete:
  assumes "schema_inv db" and "roles db = Some obj"
  shows "schema_inv (db\<lparr>roles := Some (js_delete obj k)\<rparr>)"
  using assms by (auto simp: schema_inv_def intro!: list_all_js_delete)

subsection \<open>The sample data\<close>

lemma sample_parse:
  "parse sample_JSON ''{}'' = Inr \<lparr>roles = None\<rparr>"
  "parse sample_JSON text_empty_roles = Inr \<lparr>roles = Some []\<rparr>"
  "parse sample_JSON text_x = Inr \<lparr>roles = Some [(''x'', role_x)]\<rparr>"
  "parse sample_JSON text_b = Inr \<lparr>roles = Some [(''b'', role_b)]\<rparr>"
  "parse sample_JSON text_bc = Inr \<lparr>roles = Some [(''b'', role_b), (''c'', role_c)]\<rparr>"
  "parse sample_JSON text_anon = Inr \<lparr>roles = Some [(''undefined'', role_anon)]\<rparr>"
  "parse sample_JSON ''oops'' = Inl (Error ''SyntaxError'' ''Unexpected token in JSON'' None)"
  by (simp_all add: sample_JSON_def JSON_table_def text_no_roles_def text_empty_roles_def text_x_def
      text_b_def text_bc_def text_anon_def lines_def)

lemma sample_stringify:
  "stringify sample_JSON \<lparr>roles = None\<rparr> = ''{}''"
  "stringify sample_JSON \<lparr>roles = Some []\<rparr> = text_empty_roles"
  "stringify sample_JSON \<lparr>roles = Some [(''x'', role_x)]\<rparr> = text_x"
  "stringify sample_JSON \<lparr>roles = Some [(''b'', role_b)]\<rparr> = text_b"
  "stringify sample_JSON \<lparr>roles = Some [(''b'', role_b), (''c'', role_c)]\<rparr> = text_bc"
  "stringify sample_JSON \<lparr>roles = Some [(''undefined'', role_anon)]\<rparr> = text_anon"
  by (simp_all add: sample_JSON_def JSON_table_def text_no_roles_def role_x_def role_b_def role_c_def role_anon_def)

lemma sample_db_simps: "dbPath sample_db = ''.data/db.json''" "fs sample_db = MemFs"
  by (simp_all add: sample_db_def)

lemma tmp_name_sample: "tmp_name env_exdev = ''/tmp/tmp-4242-Xn3f.tmp''"
  "tmp_name env_full = ''/tmp/tmp-4242-Xn3f.tmp''" "tmp_name env_ok = ''/tmp/tmp-4242-Xn3f.tmp''"
  by (simp_all add: tmp_name_def env_exdev_def env_full_def env_ok_def)

lemma writeDb_sample:
  "writeDb J sample_db db w = (Inr (), w\<lparr>storage := (storage w)(''.data/db.json'' \<mapsto> stringify J db)\<rparr>)"
  by (simp add: writeDb_def sample_db_simps write_MemFs)

lemma readDb_sample_stored:
  "parse J text = Inr db \<Longrightarrow> storage w ''.data/db.json'' = Some text \<Longrightarrow>
   readDb J sample_db w = (Inr db, w)"
  by (simp add: readDb_def sample_db_simps read_MemFs)

lemma readDb_sample_empty:
  "readDb sample_JSON sample_db (world0 Map.empty) = (Inr \<lparr>roles = None\<rparr>, world0 Map.empty)"
  by (simp add: readDb_def sample_db_simps read_MemFs world0_def sample_parse)

lemma readDb_sample_x:
  "readDb sample_JSON sample_db (world0 [''.data/db.json'' \<mapsto> text_x]) =
     (Inr \<lparr>roles = Some [(''x'', role_x)]\<rparr>, world0 [''.data/db.json'' \<mapsto> text_x])"
  by (simp add: readDb_def sample_db_simps read_MemFs world0_def sample_parse)

section \<open>The claims\<close>

text \<open>
  C1. When the text read from the file system does not parse, \<open>readDb\<close> does not
  hand the parse error to its caller. It writes the two lines to the console, writes
  the text of the empty schema \<^verbatim>\<open>{ roles: {} }\<close> through \<open>write\<close> and returns that
  schema. The only error it can end with is one that this \<open>write\<close> throws.
\<close>

theorem readDb_decode_failure:
  assumes "read (fs this) (dbPath this) (storage w) = (Inr content, s)"
    and "parse J content = Inl err"
  shows "readDb J this w =
     (let logged = console w @
            [console_error (''Failed to parse database file '' @ dbPath this @ '': '' @ String err),
             console_warn (''Resetting database file '' @ dbPath this @
                           '' to an empty state due to parse failure.'')]
      in case write (fs this) (dbPath this) (stringify J \<lparr>roles = Some []\<rparr>) s of
           (Inl e, s') \<Rightarrow> (Inl e, \<lparr>storage = s', console = logged\<rparr>)
         | (Inr u, s') \<Rightarrow> (Inr \<lparr>roles = Some []\<rparr>, \<lparr>storage = s', console = logged\<rparr>))"
  using assms by (simp add: readDb_def writeDb_def Let_def split: prod.splits sum.splits)

theorem readDb_decode_failure_witness:
  "read (fs sample_db) (dbPath sample_db) (storage (world0 [''.data/db.json'' \<mapsto> ''oops''])) =
     (Inr ''oops'', [''.data/db.json'' \<mapsto> ''oops''])
   \<and> parse sample_JSON ''oops'' = Inl (Error ''SyntaxError'' ''Unexpected token in JSON'' None)
   \<and> readDb sample_JSON sample_db (world0 [''.data/db.json'' \<mapsto> ''oops'']) =
       (Inr \<lparr>roles = Some []\<rparr>,
        \<lparr>storage = [''.data/db.json'' \<mapsto> text_empty_roles],
         console =
           [console_error ''Failed to parse database file .data/db.json: SyntaxError: Unexpected token in JSON'',
            console_warn ''Resetting database file .data/db.json to an empty state due to parse failure.'']\<rparr>)"
proof -
  have h1: "read (fs sample_db) (dbPath sample_db) (storage (world0 [''.data/db.json'' \<mapsto> ''oops''])) =
     (Inr ''oops'', [''.data/db.json'' \<mapsto> ''oops''])"
    by (simp add: sample_db_simps read_MemFs world0_def)
  have h2: "parse sample_JSON ''oops'' = Inl (Error ''SyntaxError'' ''Unexpected token in JSON'' None)"
    by (rule sample_parse)
  show ?thesis
    using h1 h2 readDb_decode_failure [OF h1 h2]
    by (simp add: sample_db_simps write_MemFs world0_def sample_stringify String_def)
qed

text \<open>
  C2. \<^verbatim>\<open>upsertRole\<close> files a role under its id and writes the schema, but it returns nothing:
  its result is \<open>()\<close>, the \<^verbatim>\<open>undefined\<close> its promise resolves to, where the interface
  \<^verbatim>\<open>RoleDB\<close> promises the id of the role. Here it runs on the empty store with a role whose
  id is \<^verbatim>\<open>x\<close>.
\<close>

theorem upsertRole_returns_nothing:
  "upsertRole sample_JSON sample_db role_x (world0 Map.empty) =
     (Inr (), world0 [''.data/db.json'' \<mapsto> text_x])"
proof -
  have "id' role_x = Some ''x''"
    by (simp add: role_x_def)
  then have "upsertRole sample_JSON sample_db role_x (world0 Map.empty) =
      writeDb sample_JSON sample_db \<lparr>roles = Some [(''x'', role_x)]\<rparr> (world0 Map.empty)"
    by (simp add: upsertRole_loaded [OF readDb_sample_empty] js_set_def create_property_def
        array_index_def ToPropertyKey_def)
  then show ?thesis
    by (simp add: writeDb_sample sample_stringify world0_def)
qed

text \<open>
  C3. Every entry of the schemas that the methods write is filed under the id it
  carries. This holds of the two empty schemas, \<^verbatim>\<open>{}\<close> and \<^verbatim>\<open>{ roles: {} }\<close>; the reset after
  a parse failure writes the second. Started on a loaded schema that has the property,
  \<^verbatim>\<open>upsertRole\<close> with a role whose id is set writes a schema that has it, and \<^verbatim>\<open>deleteRole\<close>
  either writes nothing or writes a schema that has it.
\<close>

theorem schema_invariant_preserved:
  "schema_inv \<lparr>roles = None\<rparr> \<and> schema_inv \<lparr>roles = Some []\<rparr>
   \<and> (read (fs this) (dbPath this) (storage w) = (Inr content, s) \<and> parse J content = Inl err \<longrightarrow>
        (\<exists>w2. readDb J this w =
           (case writeDb J this \<lparr>roles = Some []\<rparr> w2 of
              (Inl e, w3) \<Rightarrow> (Inl e, w3)
            | (Inr u, w3) \<Rightarrow> (Inr \<lparr>roles = Some []\<rparr>, w3))))
   \<and> (readDb J this w = (Inr db, w1) \<and> schema_inv db \<and> id' r = Some k \<longrightarrow>
        (\<exists>db'. schema_inv db' \<and> upsertRole J this r w = writeDb J this db' w1))
   \<and> (readDb J this w = (Inr db, w1) \<and> schema_inv db \<longrightarrow>
        deleteRole J this roleId w = (Inr False, w1)
        \<or> (\<exists>db'. schema_inv db' \<and>
              deleteRole J this roleId w =
                (case writeDb J this db' w1 of
                   (Inl e, w2) \<Rightarrow> (Inl e, w2)
                 | (Inr u, w2) \<Rightarrow> (Inr True, w2))))"
proof -
  have base: "schema_inv \<lparr>roles = None\<rparr> \<and> schema_inv \<lparr>roles = Some []\<rparr>"
    by (simp add: schema_inv_def)
  have reset: "read (fs this) (dbPath this) (storage w) = (Inr content, s) \<and> parse J content = Inl err \<longrightarrow>
        (\<exists>w2. readDb J this w =
           (case writeDb J this \<lparr>roles = Some []\<rparr> w2 of
              (Inl e, w3) \<Rightarrow> (Inl e, w3)
            | (Inr u, w3) \<Rightarrow> (Inr \<lparr>roles = Some []\<rparr>, w3)))"
    using readDb_reset [of this w content s J err] by simp
  have up: "readDb J this w = (Inr db, w1) \<and> schema_inv db \<and> id' r = Some k \<longrightarrow>
      (\<exists>db'. schema_inv db' \<and> upsertRole J this r w = writeDb J this db' w1)"
  proof
    assume a: "readDb J this w = (Inr db, w1) \<and> schema_inv db \<and> id' r = Some k"
    then have l: "readDb J this w = (Inr db, w1)" and i: "schema_inv db" and k: "id' r = Some k"
      by simp_all
    from upsertRole_loaded [OF l, of r] k schema_inv_js_set [OF i k]
    show "\<exists>db'. schema_inv db' \<and> upsertRole J this r w = writeDb J this db' w1"
      by (auto simp: ToPropertyKey_def)
  qed
  have del: "readDb J this w = (Inr db, w1) \<and> schema_inv db \<longrightarrow>
        deleteRole J this roleId w = (Inr False, w1)
        \<or> (\<exists>db'. schema_inv db' \<and>
              deleteRole J this roleId w =
                (case writeDb J this db' w1 of
                   (Inl e, w2) \<Rightarrow> (Inl e, w2)
                 | (Inr u, w2) \<Rightarrow> (Inr True, w2)))"
  proof
    assume a: "readDb J this w = (Inr db, w1) \<and> schema_inv db"
    then have l: "readDb J this w = (Inr db, w1)" and i: "schema_inv db"
      by simp_all
    show "deleteRole J this roleId w = (Inr False, w1)
        \<or> (\<exists>db'. schema_inv db' \<and>
              deleteRole J this roleId w =
                (case writeDb J this db' w1 of
                   (Inl e, w2) \<Rightarrow> (Inl e, w2)
                 | (Inr u, w2) \<Rightarrow> (Inr True, w2)))"
    proof (cases "roles db")
      case None
      with deleteRole_loaded [OF l, of roleId] show ?thesis by simp
    next
      case (Some obj)
      show ?thesis
      proof (cases "falsy (js_get obj roleId)")
        case True
        with Some deleteRole_loaded [OF l, of roleId] show ?thesis by simp
      next
        case False
        with Some deleteRole_loaded [OF l, of roleId]
        have "deleteRole J this roleId w =
            (case writeDb J this (db\<lparr>roles := Some (js_delete obj roleId)\<rparr>) w1 of
               (Inl e, w2) \<Rightarrow> (Inl e, w2)
             | (Inr u, w2) \<Rightarrow> (Inr True, w2))"
          by simp
        with schema_inv_js_delete [OF i Some] show ?thesis by blast
      qed
    qed
  qed
  from base reset up del show ?thesis by blast
qed

theorem schema_invariant_preserved_witness:
  "read (fs sample_db) (dbPath sample_db) (storage (world0 [''.data/db.json'' \<mapsto> ''oops''])) =
     (Inr ''oops'', [''.data/db.json'' \<mapsto> ''oops''])
   \<and> parse sample_JSON ''oops'' = Inl (Error ''SyntaxError'' ''Unexpected token in JSON'' None)
   \<and> (\<exists>w2. readDb sample_JSON sample_db (world0 [''.data/db.json'' \<mapsto> ''oops'']) =
           (case writeDb sample_JSON sample_db \<lparr>roles = Some []\<rparr> w2 of
              (Inl e, w3) \<Rightarrow> (Inl e, w3)
            | (Inr u, w3) \<Rightarrow> (Inr \<lparr>roles = Some []\<rparr>, w3)))
   \<and> readDb sample_JSON sample_db (world0 [''.data/db.json'' \<mapsto> text_x]) =
       (Inr \<lparr>roles = Some [(''x'', role_x)]\<rparr>, world0 [''.data/db.json'' \<mapsto> text_x])
   \<and> schema_inv \<lparr>roles = Some [(''x'', role_x)]\<rparr>
   \<and> id' role_b = Some ''b''
   \<and> (\<exists>db'. schema_inv db' \<and>
         upsertRole sample_JSON sample_db role_b (world0 [''.data/db.json'' \<mapsto> text_x]) =
           writeDb sample_JSON sample_db db' (world0 [''.data/db.json'' \<mapsto> text_x]))
   \<and> (\<exists>db'. schema_inv db' \<and>
         deleteRole sample_JSON sample_db ''x'' (world0 [''.data/db.json'' \<mapsto> text_x]) =
           (case writeDb sample_JSON sample_db db' (world0 [''.data/db.json'' \<mapsto> text_x]) of
              (Inl e, w2) \<Rightarrow> (Inl e, w2)
            | (Inr u, w2) \<Rightarrow> (Inr True, w2)))"
proof -
  let ?w = "world0 [''.data/db.json'' \<mapsto> text_x]"
  have h1: "read (fs sample_db) (dbPath sample_db) (storage (world0 [''.data/db.json'' \<mapsto> ''oops''])) =
     (Inr ''oops'', [''.data/db.json'' \<mapsto> ''oops''])"
    by (simp add: sample_db_simps read_MemFs world0_def)
  have h2: "parse sample_JSON ''oops'' = Inl (Error ''SyntaxError'' ''Unexpected token in JSON'' None)"
    by (rule sample_parse)
  have h3: "schema_inv \<lparr>roles = Some [(''x'', role_x)]\<rparr>"
    by (simp add: schema_inv_def role_x_def)
  have h4: "id' role_b = Some ''b''"
    by (simp add: role_b_def)
  have h5: "deleteRole sample_JSON sample_db ''x'' ?w \<noteq> (Inr False, ?w)"
    by (simp add: deleteRole_loaded [OF readDb_sample_x] falsy_def js_get_def writeDb_def
        sample_db_simps write_MemFs)
  note reset = schema_invariant_preserved
      [of sample_db "world0 [''.data/db.json'' \<mapsto> ''oops'']" "''oops''"
          "[''.data/db.json'' \<mapsto> ''oops'']" sample_JSON
          "Error ''SyntaxError'' ''Unexpected token in JSON'' None"]
  note step = schema_invariant_preserved
      [of sample_db ?w _ _ sample_JSON _ "\<lparr>roles = Some [(''x'', role_x)]\<rparr>" ?w role_b "''b''" "''x''"]
  from reset h1 h2 have r: "\<exists>w2. readDb sample_JSON sample_db (world0 [''.data/db.json'' \<mapsto> ''oops'']) =
           (case writeDb sample_JSON sample_db \<lparr>roles = Some []\<rparr> w2 of
              (Inl e, w3) \<Rightarrow> (Inl e, w3)
            | (Inr u, w3) \<Rightarrow> (Inr \<lparr>roles = Some []\<rparr>, w3))"
    by blast
  from step readDb_sample_x h3 h4 h5 have
    "(\<exists>db'. schema_inv db' \<and>
         upsertRole sample_JSON sample_db role_b ?w = writeDb sample_JSON sample_db db' ?w)
     \<and> (\<exists>db'. schema_inv db' \<and>
         deleteRole sample_JSON sample_db ''x'' ?w =
           (case writeDb sample_JSON sample_db db' ?w of
              (Inl e, w2) \<Rightarrow> (Inl e, w2)
            | (Inr u, w2) \<Rightarrow> (Inr True, w2)))"
    by blast
  with r h1 h2 h3 h4 readDb_sample_x show ?thesis by blast
qed

text \<open>
  C4. \<^verbatim>\<open>RealFs.write\<close> stages the new content in the file that \<^verbatim>\<open>tmp.fileSync()\<close> creates,
  and this file lies in \<^verbatim>\<open>os.tmpdir()\<close>, not in the directory of the target. With
  \<^verbatim>\<open>/tmp\<close> for \<^verbatim>\<open>os.tmpdir()\<close> and the target \<^verbatim>\<open>.data/db.json\<close>, the staging file is
  \<^verbatim>\<open>/tmp/tmp-4242-Xn3f.tmp\<close>: its directory is not the target's, and when the device
  behind this one path is full, the write to the target fails.
\<close>

theorem staging_file_in_os_tmpdir:
  "tmp_fileSync env_ok Map.empty =
     (Inr ''/tmp/tmp-4242-Xn3f.tmp'', [''/tmp/tmp-4242-Xn3f.tmp'' \<mapsto> []])
   \<and> dirname ''/tmp/tmp-4242-Xn3f.tmp'' = ''/tmp''
   \<and> dirname ''.data/db.json'' = ''.data''
   \<and> write (RealFs env_full) ''.data/db.json'' ''text'' Map.empty = (Inl ENOSPC, Map.empty)"
  by (simp add: tmp_fileSync_def tmp_name_def env_ok_def env_full_def dirname_def Let_def
      RealFs_def RealFs_write_def mkdir_def writeFile_def removeCallback_def)

text \<open>
  C5. Reading a path under which nothing is stored gives the text \<^verbatim>\<open>{}\<close> and no error, with
  both implementations: with \<^verbatim>\<open>MemFs\<close> when the map has no entry for the path, with
  \<^verbatim>\<open>RealFs\<close> when the disk has no file there and \<^verbatim>\<open>readFile\<close> reports nothing but \<^verbatim>\<open>ENOENT\<close>.
\<close>

theorem read_missing:
  "(fls path = None \<longrightarrow> read MemFs path fls = (Inr ''{}'', fls))
   \<and> (disk path = None \<and> (\<forall>e. fault env (ReadFile path) = Some e \<longrightarrow> code e = Some ''ENOENT'') \<longrightarrow>
        read (RealFs env) path disk = (Inr ''{}'', disk))"
  by (auto simp: read_MemFs RealFs_def RealFs_read_def readFile_def ENOENT_def
      split: option.splits)

theorem read_missing_witness:
  "(Map.empty :: files) ''.data/db.json'' = None
   \<and> read MemFs ''.data/db.json'' Map.empty = (Inr ''{}'', Map.empty)
   \<and> (\<forall>e. fault env_ok (ReadFile ''.data/db.json'') \<noteq> Some e)
   \<and> read (RealFs env_ok) ''.data/db.json'' Map.empty = (Inr ''{}'', Map.empty)"
proof -
  have h: "\<forall>e. fault env_ok (ReadFile ''.data/db.json'') = Some e \<longrightarrow> code e = Some ''ENOENT''"
    by (simp add: env_ok_def)
  have n: "\<forall>e. fault env_ok (ReadFile ''.data/db.json'') \<noteq> Some e"
    by (simp add: env_ok_def)
  from read_missing [of Map.empty "''.data/db.json''" Map.empty env_ok] h n
  show ?thesis by simp
qed

text \<open>
  C6. \<^verbatim>\<open>deleteRole\<close> takes an id for present when \<^verbatim>\<open>db.roles[roleId]\<close> is truthy. For
  \<^verbatim>\<open>constructor\<close>, a member of \<^verbatim>\<open>Object.prototype\<close>, it is: on the store \<^verbatim>\<open>{ roles: {} }\<close>,
  which has no entry at all, the method returns \<open>True\<close> and writes the file again.
  The write shows with a file system whose staging write fails: the error of that write
  comes back, while for the id \<^verbatim>\<open>missing\<close> the method returns \<open>False\<close> there.
\<close>

theorem deleteRole_inherited_key:
  "parse sample_JSON text_empty_roles = Inr \<lparr>roles = Some []\<rparr>
   \<and> deleteRole sample_JSON sample_db ''constructor'' (world0 [''.data/db.json'' \<mapsto> text_empty_roles]) =
       (Inr True, world0 [''.data/db.json'' \<mapsto> text_empty_roles])
   \<and> fst (deleteRole sample_JSON \<lparr>dbPath = ''.data/db.json'', fs = RealFs env_full\<rparr> ''constructor''
            (world0 [''.data/db.json'' \<mapsto> text_empty_roles])) = Inl ENOSPC
   \<and> fst (deleteRole sample_JSON \<lparr>dbPath = ''.data/db.json'', fs = RealFs env_full\<rparr> ''missing''
            (world0 [''.data/db.json'' \<mapsto> text_empty_roles])) = Inr False"
proof -
  let ?w = "world0 [''.data/db.json'' \<mapsto> text_empty_roles]"
  let ?real = "\<lparr>dbPath = ''.data/db.json'', fs = RealFs env_full\<rparr>"
  have p: "parse sample_JSON text_empty_roles = Inr \<lparr>roles = Some []\<rparr>"
    by (rule sample_parse)
  have l: "readDb sample_JSON sample_db ?w = (Inr \<lparr>roles = Some []\<rparr>, ?w)"
    by (rule readDb_sample_stored [OF p]) (simp add: world0_def)
  have a: "deleteRole sample_JSON sample_db ''constructor'' ?w = (Inr True, ?w)"
    by (simp add: deleteRole_loaded [OF l] js_get_def Object_prototype_keys_def falsy_def
        js_delete_def writeDb_sample sample_stringify, simp add: world0_def)
  have lr: "readDb sample_JSON ?real ?w = (Inr \<lparr>roles = Some []\<rparr>, ?w)"
    by (simp add: readDb_def RealFs_def RealFs_read_def readFile_def env_full_def env_ok_def
        world0_def p)
  have w: "write (RealFs env_full) ''.data/db.json'' text_empty_roles [''.data/db.json'' \<mapsto> text_empty_roles] =
      (Inl ENOSPC, [''.data/db.json'' \<mapsto> text_empty_roles])"
    by (simp add: RealFs_def RealFs_write_def mkdir_def tmp_fileSync_def tmp_name_def writeFile_def
        removeCallback_def env_full_def env_ok_def Let_def)
  have b: "fst (deleteRole sample_JSON ?real ''constructor'' ?w) = Inl ENOSPC"
    by (simp add: deleteRole_loaded [OF lr] js_get_def Object_prototype_keys_def falsy_def
        js_delete_def writeDb_def sample_stringify, simp add: world0_def w)
  have c: "fst (deleteRole sample_JSON ?real ''missing'' ?w) = Inr False"
    by (simp add: deleteRole_loaded [OF lr] js_get_def Object_prototype_keys_def falsy_def)
  from p a b c show ?thesis by simp
qed

text \<open>
  C7. For a role \<open>r\<close> whose id is \<^verbatim>\<open>x\<close>, \<^verbatim>\<open>upsertRole(r)\<close> followed by \<^verbatim>\<open>getRole("x")\<close> returns
  \<open>r\<close>. The file system has to keep what is written to it, and \<^verbatim>\<open>JSON.parse\<close> has to read
  back the schema that \<^verbatim>\<open>JSON.stringify\<close> wrote.
\<close>

theorem upsert_then_get_x:
  assumes "id' r = Some ''x''"
    and "readDb J this w = (Inr db, w1)"
    and "db' = db\<lparr>roles := Some (js_set (case roles db of Some obj \<Rightarrow> obj | None \<Rightarrow> []) ''x'' r)\<rparr>"
    and "keeps (fs this) (dbPath this) (stringify J db') (storage w1)"
    and "round_trip J db'"
  shows "fst (upsertRole J this r w) = Inr () \<and>
         fst (getRole J this ''x'' (snd (upsertRole J this r w))) = Inr (Role r)"
proof -
  have "''x'' = ToPropertyKey (id' r)"
    using assms(1) by (simp add: ToPropertyKey_def)
  from upsert_then_get [OF assms(2) this _ assms(3) assms(4) assms(5)]
  show ?thesis by simp
qed

theorem upsert_then_get_x_witness:
  "id' role_x = Some ''x''
   \<and> readDb sample_JSON sample_db (world0 Map.empty) = (Inr \<lparr>roles = None\<rparr>, world0 Map.empty)
   \<and> keeps (fs sample_db) (dbPath sample_db)
        (stringify sample_JSON \<lparr>roles = Some [(''x'', role_x)]\<rparr>) (storage (world0 Map.empty))
   \<and> round_trip sample_JSON \<lparr>roles = Some [(''x'', role_x)]\<rparr>
   \<and> fst (upsertRole sample_JSON sample_db role_x (world0 Map.empty)) = Inr ()
   \<and> fst (getRole sample_JSON sample_db ''x''
            (snd (upsertRole sample_JSON sample_db role_x (world0 Map.empty)))) = Inr (Role role_x)"
proof -
  have h1: "id' role_x = Some ''x''"
    by (simp add: role_x_def)
  have h3: "\<lparr>roles = Some [(''x'', role_x)]\<rparr> =
      \<lparr>roles = None\<rparr>\<lparr>roles := Some (js_set (case roles \<lparr>roles = None\<rparr> of Some obj \<Rightarrow> obj | None \<Rightarrow> []) ''x'' role_x)\<rparr>"
    by (simp add: js_set_def create_property_def array_index_def)
  have h4: "keeps (fs sample_db) (dbPath sample_db)
        (stringify sample_JSON \<lparr>roles = Some [(''x'', role_x)]\<rparr>) (storage (world0 Map.empty))"
    by (simp add: sample_db_simps keeps_MemFs)
  have h5: "round_trip sample_JSON \<lparr>roles = Some [(''x'', role_x)]\<rparr>"
    by (simp add: round_trip_def sample_stringify sample_parse)
  from upsert_then_get_x [OF h1 readDb_sample_empty h3 h4 h5] h1 readDb_sample_empty h4 h5
  show ?thesis by blast
qed

text \<open>
  C8. A \<^verbatim>\<open>RealFs.write\<close> that fails in writing the staging file, or in renaming it onto
  the target, ends with the error of the failing call and leaves the disk as it was
  before the call: the target has its old content, or is absent as before, and the
  staging file is gone. The staging file is one that \<^verbatim>\<open>tmp.fileSync()\<close> has created anew,
  and its removal in the \<^verbatim>\<open>finally\<close> block is not itself stopped by an error.
\<close>

theorem RealFs_write_failure:
  assumes "fault env (Mkdir (dirname path)) = None"
    and "fault env TmpFile = None"
    and "disk (tmp_name env) = None"
    and "fault env (WriteFile (tmp_name env)) = Some e
         \<or> fault env (WriteFile (tmp_name env)) = None \<and> fault env (Rename (tmp_name env) path) = Some e"
    and "fault env (Unlink (tmp_name env)) = None"
  shows "write (RealFs env) path content disk = (Inl e, disk)"
proof -
  have gone: "\<And>d x. (disk(tmp_name env \<mapsto> x))(tmp_name env := None) = disk"
    using assms(3) by (simp add: fun_eq_iff)
  from assms(4) show ?thesis
  proof
    assume "fault env (WriteFile (tmp_name env)) = Some e"
    with assms(1,2,3,5) gone show ?thesis
      by (simp add: RealFs_def RealFs_write_def mkdir_def tmp_fileSync_def writeFile_def
          removeCallback_def Let_def split: option.splits)
  next
    assume "fault env (WriteFile (tmp_name env)) = None \<and> fault env (Rename (tmp_name env) path) = Some e"
    with assms(1,2,3,5) gone show ?thesis
      by (simp add: RealFs_def RealFs_write_def mkdir_def tmp_fileSync_def writeFile_def rename_def
          removeCallback_def Let_def)
  qed
qed

theorem RealFs_write_failure_witness:
  "write (RealFs env_exdev) ''.data/db.json'' ''new'' [''.data/db.json'' \<mapsto> ''old''] =
     (Inl EXDEV, [''.data/db.json'' \<mapsto> ''old''])
   \<and> write (RealFs env_full) ''.data/db.json'' ''new'' [''.data/db.json'' \<mapsto> ''old''] =
     (Inl ENOSPC, [''.data/db.json'' \<mapsto> ''old''])"
proof -
  have a: "write (RealFs env_exdev) ''.data/db.json'' ''new'' [''.data/db.json'' \<mapsto> ''old''] =
     (Inl EXDEV, [''.data/db.json'' \<mapsto> ''old''])"
    by (rule RealFs_write_failure) (simp_all add: tmp_name_sample, simp_all add: env_exdev_def env_ok_def)
  have b: "write (RealFs env_full) ''.data/db.json'' ''new'' [''.data/db.json'' \<mapsto> ''old''] =
     (Inl ENOSPC, [''.data/db.json'' \<mapsto> ''old''])"
    by (rule RealFs_write_failure) (simp_all add: tmp_name_sample, simp_all add: env_full_def env_ok_def)
  from a b show ?thesis by simp
qed

text \<open>
  C9. Three upserts of roles with distinct ids into the empty store, one of the ids
  being \<^verbatim>\<open>__proto__\<close>: the assignment under this key creates no entry, so the role is not
  stored, and \<^verbatim>\<open>listRoles\<close> returns the other two roles only.
\<close>

theorem upsert_proto_is_lost:
  "fst (listRoles sample_JSON sample_db
         (snd (upsertRole sample_JSON sample_db role_c
           (snd (upsertRole sample_JSON sample_db role_b
             (snd (upsertRole sample_JSON sample_db role_proto (world0 Map.empty)))))))) =
     Inr [role_b, role_c]
   \<and> role_proto \<notin> set [role_b, role_c]
   \<and> id' role_proto \<noteq> id' role_b \<and> id' role_proto \<noteq> id' role_c \<and> id' role_b \<noteq> id' role_c"
proof -
  let ?w1 = "world0 [''.data/db.json'' \<mapsto> text_empty_roles]"
  let ?w2 = "world0 [''.data/db.json'' \<mapsto> text_b]"
  let ?w3 = "world0 [''.data/db.json'' \<mapsto> text_bc]"
  have ids: "id' role_proto = Some ''__proto__''" "id' role_b = Some ''b''" "id' role_c = Some ''c''"
    by (simp_all add: role_proto_def role_b_def role_c_def)
  have "upsertRole sample_JSON sample_db role_proto (world0 Map.empty) =
      writeDb sample_JSON sample_db \<lparr>roles = Some []\<rparr> (world0 Map.empty)"
    by (simp add: upsertRole_loaded [OF readDb_sample_empty] ids js_set_def ToPropertyKey_def)
  then have u1: "upsertRole sample_JSON sample_db role_proto (world0 Map.empty) = (Inr (), ?w1)"
    by (simp add: writeDb_sample sample_stringify world0_def)
  have l1: "readDb sample_JSON sample_db ?w1 = (Inr \<lparr>roles = Some []\<rparr>, ?w1)"
    by (rule readDb_sample_stored) (simp_all add: sample_parse world0_def)
  have "upsertRole sample_JSON sample_db role_b ?w1 =
      writeDb sample_JSON sample_db \<lparr>roles = Some [(''b'', role_b)]\<rparr> ?w1"
    by (simp add: upsertRole_loaded [OF l1] ids js_set_def create_property_def array_index_def
        ToPropertyKey_def)
  then have u2: "upsertRole sample_JSON sample_db role_b ?w1 = (Inr (), ?w2)"
    by (simp add: writeDb_sample sample_stringify world0_def)
  have l2: "readDb sample_JSON sample_db ?w2 = (Inr \<lparr>roles = Some [(''b'', role_b)]\<rparr>, ?w2)"
    by (rule readDb_sample_stored) (simp_all add: sample_parse world0_def)
  have "upsertRole sample_JSON sample_db role_c ?w2 =
      writeDb sample_JSON sample_db \<lparr>roles = Some [(''b'', role_b), (''c'', role_c)]\<rparr> ?w2"
    by (simp add: upsertRole_loaded [OF l2] ids js_set_def create_property_def array_index_def
        ToPropertyKey_def)
  then have u3: "upsertRole sample_JSON sample_db role_c ?w2 = (Inr (), ?w3)"
    by (simp add: writeDb_sample sample_stringify world0_def)
  have l3: "readDb sample_JSON sample_db ?w3 =
      (Inr \<lparr>roles = Some [(''b'', role_b), (''c'', role_c)]\<rparr>, ?w3)"
    by (rule readDb_sample_stored) (simp_all add: sample_parse world0_def)
  have lst: "fst (listRoles sample_JSON sample_db ?w3) = Inr [role_b, role_c]"
    by (simp add: listRoles_def l3 Object_values_def)
  have ne: "role_proto \<notin> set [role_b, role_c]"
    by (simp add: role_proto_def role_b_def role_c_def)
  from u1 u2 u3 lst ne ids show ?thesis by simp
qed

text \<open>
  C10. For a role without an id, \<^verbatim>\<open>upsertRole\<close> ends without an error and files the role
  under the key \<^verbatim>\<open>undefined\<close>, so that \<^verbatim>\<open>getRole("undefined")\<close> returns the role. The file
  system has to keep what is written to it, and \<^verbatim>\<open>JSON.parse\<close> has to read back the schema
  that \<^verbatim>\<open>JSON.stringify\<close> wrote.
\<close>

theorem upsert_without_id:
  assumes "id' r = None"
    and "readDb J this w = (Inr db, w1)"
    and "db' = db\<lparr>roles := Some (js_set (case roles db of Some obj \<Rightarrow> obj | None \<Rightarrow> []) ''undefined'' r)\<rparr>"
    and "keeps (fs this) (dbPath this) (stringify J db') (storage w1)"
    and "round_trip J db'"
  shows "upsertRole J this r w = writeDb J this db' w1 \<and>
         fst (upsertRole J this r w) = Inr () \<and>
         fst (getRole J this ''undefined'' (snd (upsertRole J this r w))) = Inr (Role r)"
proof -
  have key: "''undefined'' = ToPropertyKey (id' r)"
    using assms(1) by (simp add: ToPropertyKey_def)
  have "upsertRole J this r w = writeDb J this db' w1"
    using upsertRole_loaded [OF assms(2), of r] assms(3) key by simp
  moreover have "fst (upsertRole J this r w) = Inr () \<and>
         fst (getRole J this ''undefined'' (snd (upsertRole J this r w))) = Inr (Role r)"
    using upsert_then_get [OF assms(2) key _ assms(3) assms(4) assms(5)] by simp
  ultimately show ?thesis by simp
qed

theorem upsert_without_id_witness:
  "id' role_anon = None
   \<and> readDb sample_JSON sample_db (world0 Map.empty) = (Inr \<lparr>roles = None\<rparr>, world0 Map.empty)
   \<and> keeps (fs sample_db) (dbPath sample_db)
        (stringify sample_JSON \<lparr>roles = Some [(''undefined'', role_anon)]\<rparr>) (storage (world0 Map.empty))
   \<and> round_trip sample_JSON \<lparr>roles = Some [(''undefined'', role_anon)]\<rparr>
   \<and> upsertRole sample_JSON sample_db role_anon (world0 Map.empty) =
       writeDb sample_JSON sample_db \<lparr>roles = Some [(''undefined'', role_anon)]\<rparr> (world0 Map.empty)
   \<and> fst (upsertRole sample_JSON sample_db role_anon (world0 Map.empty)) = Inr ()
   \<and> fst (getRole sample_JSON sample_db ''undefined''
            (snd (upsertRole sample_JSON sample_db role_anon (world0 Map.empty)))) = Inr (Role role_anon)"
proof -
  have h1: "id' role_anon = None"
    by (simp add: role_anon_def)
  have h3: "\<lparr>roles = Some [(''undefined'', role_anon)]\<rparr> =
      \<lparr>roles = None\<rparr>\<lparr>roles := Some (js_set (case roles \<lparr>roles = None\<rparr> of Some obj \<Rightarrow> obj | None \<Rightarrow> []) ''undefined'' role_anon)\<rparr>"
    by (simp add: js_set_def create_property_def array_index_def)
  have h4: "keeps (fs sample_db) (dbPath sample_db)
        (stringify sample_JSON \<lparr>roles = Some [(''undefined'', role_anon)]\<rparr>) (storage (world0 Map.empty))"
    by (simp add: sample_db_simps keeps_MemFs)
  have h5: "round_trip sample_JSON \<lparr>roles = Some [(''undefined'', role_anon)]\<rparr>"
    by (simp add: round_trip_def sample_stringify sample_parse)
  from upsert_without_id [OF h1 readDb_sample_empty h3 h4 h5] h1 readDb_sample_empty h4 h5
  show ?thesis by blast
qed

end
